theory Spec2Isabelle
  imports
    Main
    "HOL-Library.Char_ord"
    "HOL-Library.List_Lexorder"
    "HOL-Library.Product_Lexorder"
    "HOL-Library.AList"
    "HOL-Library.Multiset"
begin

section \<open>The primary-datasets report (app.py)\<close>

text \<open>
  The program is a linear script: \<open>get_data\<close> performs one HTTP GET and builds a pandas
  DataFrame from the \<open>data\<close> array of the JSON answer, \<open>determine_type\<close> labels every
  row, the script keeps the rows labelled \<open>Primary\<close> and computes three count matrices
  with \<open>groupby(...).size().unstack(fill_value=0)\<close>.

  Strings are byte lists; the order of \<open>string\<close> is the lexicographic order of the
  character codes, which is the order Python uses for \<open>str\<close> on UTF-8 encoded text.
\<close>

subsection \<open>Values, exceptions and the HTTP answer\<close>

text \<open>
  A cell of the raw DataFrame holds what the JSON record held under that key: a string, a
  status history (a list of dictionaries), or nothing. pandas stores \<open>NaN\<close> where a record
  has no such key; a JSON \<open>null\<close> is treated the same way by every operation used here.
\<close>

datatype cell = Str string | NaN | Hist "(string \<times> string) list list"

text \<open>
  A parsed JSON object is a Python dict: every key once, in insertion order, read by key.
\<close>

type_synonym jrecord = "(string \<times> cell) list"

datatype exn =
    KeyError string
  | ValueError
  | TypeError
  | JSONDecodeError
  | HTTPError
  | ConnectionError

text \<open>
  The body of an answer either fails to parse or parses to an object whose top-level keys
  hold arrays of records.
\<close>

datatype body = NotJson | JsonObject "(string \<times> jrecord list) list"

datatype response = RequestFailed | Response nat body

text \<open>The exception classes named by the two \<open>except\<close> clauses of \<open>get_data\<close>.\<close>

fun is_ValueError :: "exn \<Rightarrow> bool" where
  "is_ValueError ValueError = True"
| "is_ValueError JSONDecodeError = True"
| "is_ValueError _ = False"

fun is_KeyError :: "exn \<Rightarrow> bool" where
  "is_KeyError (KeyError k) = True"
| "is_KeyError _ = False"

fun is_RequestException :: "exn \<Rightarrow> bool" where
  "is_RequestException HTTPError = True"
| "is_RequestException ConnectionError = True"
| "is_RequestException JSONDecodeError = True"
| "is_RequestException _ = False"

subsection \<open>The classifier\<close>

text \<open>Python's \<open>sub in s\<close> on strings: \<open>sub\<close> occurs in \<open>s\<close> as a contiguous piece.\<close>

fun startswith :: "string \<Rightarrow> string \<Rightarrow> bool" where
  "startswith s [] = True"
| "startswith [] (c # sub) = False"
| "startswith (d # s) (c # sub) = (d = c \<and> startswith s sub)"

fun str_contains :: "string \<Rightarrow> string \<Rightarrow> bool" where
  "str_contains sub [] = (sub = [])"
| "str_contains sub (d # s) = (startswith (d # s) sub \<or> str_contains sub s)"

definition determine_type :: "string \<Rightarrow> string" where
  "determine_type dataset_type =
     (if str_contains ''['' dataset_type \<and> str_contains '']'' dataset_type
      then ''Derived'' else ''Primary'')"

text \<open>
  \<open>Series.apply(determine_type)\<close> calls the function on whatever the cell holds. On
  \<open>NaN\<close> the test \<open>"[" in dataset_type\<close> raises \<open>TypeError\<close>; on a list of dictionaries
  it is a membership test that no dictionary passes.
\<close>

fun determine_type_cell :: "cell \<Rightarrow> exn + cell" where
  "determine_type_cell (Str s) = Inr (Str (determine_type s))"
| "determine_type_cell NaN = Inl TypeError"
| "determine_type_cell (Hist h) = Inr (Str ''Primary'')"

subsection \<open>The raw DataFrame\<close>

text \<open>
  A DataFrame is its list of column labels and its rows; every row carries its cells with
  their labels, in column order.
\<close>

record dataframe =
  columns :: "string list"
  rows :: "(string \<times> cell) list list"

definition empty_frame :: dataframe where
  "empty_frame = \<lparr>columns = [], rows = []\<rparr>"

text \<open>Distinct elements in the order in which they are first seen.\<close>

definition first_seen :: "'a list \<Rightarrow> 'a list" where
  "first_seen xs = rev (remdups (rev xs))"

definition field :: "(string \<times> cell) list \<Rightarrow> string \<Rightarrow> cell" where
  "field r k = (case map_of r k of Some v \<Rightarrow> v | None \<Rightarrow> NaN)"

text \<open>
  \<open>pd.DataFrame(list of dicts)\<close>: the columns are the keys of all records in order of
  first appearance, a record without a key gets \<open>NaN\<close> there.
\<close>

definition DataFrame :: "jrecord list \<Rightarrow> dataframe" where
  "DataFrame recs =
     (let cols = first_seen (concat (map (map fst) recs))
      in \<lparr>columns = cols, rows = map (\<lambda>r. map (\<lambda>c. (c, field r c)) cols) recs\<rparr>)"

text \<open>\<open>df[k]\<close> raises \<open>KeyError\<close> when there is no such column.\<close>

definition getitem :: "dataframe \<Rightarrow> string \<Rightarrow> exn + cell list" where
  "getitem df k =
     (if k \<in> set (columns df) then Inr (map (\<lambda>r. field r k) (rows df))
      else Inl (KeyError k))"

text \<open>\<open>df[k] = values\<close> replaces the column where it is, or appends a new one.\<close>

definition setitem :: "dataframe \<Rightarrow> string \<Rightarrow> cell list \<Rightarrow> dataframe" where
  "setitem df k vs =
     \<lparr>columns = (if k \<in> set (columns df) then columns df else columns df @ [k]),
      rows = map (\<lambda>(r, v). AList.update k v r) (zip (rows df) vs)\<rparr>"

text \<open>\<open>Series.apply(f)\<close>: the values in order, stopping at the first exception.\<close>

fun series_apply :: "('a \<Rightarrow> exn + 'b) \<Rightarrow> 'a list \<Rightarrow> exn + 'b list" where
  "series_apply f [] = Inr []"
| "series_apply f (x # xs) =
     (case f x of
        Inl e \<Rightarrow> Inl e
      | Inr y \<Rightarrow> (case series_apply f xs of Inl e \<Rightarrow> Inl e | Inr ys \<Rightarrow> Inr (y # ys)))"

subsection \<open>The fetcher\<close>

text \<open>\<open>Response.raise_for_status\<close> raises \<open>HTTPError\<close> on a 4xx or 5xx status.\<close>

definition raise_for_status :: "nat \<Rightarrow> exn + unit" where
  "raise_for_status code = (if 400 \<le> code \<and> code < 600 then Inl HTTPError else Inr ())"

text \<open>The body of the \<open>try\<close> block of \<open>get_data\<close>; \<open>Inl\<close> is the exception it raises.\<close>

definition get_data_try :: "response \<Rightarrow> exn + dataframe" where
  "get_data_try resp =
     (case resp of
        RequestFailed \<Rightarrow> Inl ConnectionError
      | Response code b \<Rightarrow>
          (case raise_for_status code of
             Inl e \<Rightarrow> Inl e
           | Inr _ \<Rightarrow>
               (case b of
                  NotJson \<Rightarrow> Inl JSONDecodeError
                | JsonObject json_data \<Rightarrow>
                    (case map_of json_data ''data'' of
                       None \<Rightarrow> Inl (KeyError ''data'')
                     | Some recs \<Rightarrow>
                         (let df = DataFrame recs in
                          case getitem df ''dataset_type'' of
                            Inl e \<Rightarrow> Inl e
                          | Inr col \<Rightarrow>
                              (case series_apply determine_type_cell col of
                                 Inl e \<Rightarrow> Inl e
                               | Inr st \<Rightarrow> Inr (setitem df ''dataset_status'' st)))))))"

text \<open>
  \<open>get_data\<close> with its two handlers: \<open>except (ValueError, KeyError)\<close> and
  \<open>except requests.RequestException\<close> both return \<open>pd.DataFrame()\<close>; any other exception
  leaves the function.
\<close>

definition get_data :: "response \<Rightarrow> exn + dataframe" where
  "get_data resp =
     (case get_data_try resp of
        Inr df \<Rightarrow> Inr df
      | Inl e \<Rightarrow>
          (if is_ValueError e \<or> is_KeyError e then Inr empty_frame
           else if is_RequestException e then Inr empty_frame
           else Inl e))"

subsection \<open>Filtering and renaming\<close>

text \<open>
  \<open>data[data["dataset_status"] == "Primary"].copy()\<close>: the comparison needs the column;
  the mask keeps the rows whose label is the string \<open>Primary\<close>.
\<close>

definition primary_rows :: "dataframe \<Rightarrow> exn + dataframe" where
  "primary_rows data =
     (case getitem data ''dataset_status'' of
        Inl e \<Rightarrow> Inl e
      | Inr st \<Rightarrow>
          Inr (data\<lparr>rows := map fst (filter (\<lambda>(r, v). v = Str ''Primary'') (zip (rows data) st))\<rparr>))"

text \<open>
  \<open>df.rename(columns=m, inplace=True)\<close> relabels the columns that \<open>m\<close> names and ignores
  the names of \<open>m\<close> that are no column.
\<close>

definition relabel :: "(string \<times> string) list \<Rightarrow> string \<Rightarrow> string" where
  "relabel m c = (case map_of m c of Some c' \<Rightarrow> c' | None \<Rightarrow> c)"

definition rename :: "(string \<times> string) list \<Rightarrow> dataframe \<Rightarrow> dataframe" where
  "rename m df =
     \<lparr>columns = map (relabel m) (columns df),
      rows = map (map (\<lambda>(c, v). (relabel m c, v))) (rows df)\<rparr>"

subsection \<open>Count matrices\<close>

text \<open>
  The count matrix is again a DataFrame: its column labels, and its rows with their index
  label and their labelled cells.
\<close>

record pivot =
  pcolumns :: "string list"
  prows :: "(string \<times> (string \<times> int) list) list"

text \<open>
  A grouping key must be a column, and only one column: with two columns of that label
  pandas raises \<open>ValueError\<close> (the grouper is not one-dimensional).
\<close>

definition grouper :: "dataframe \<Rightarrow> string \<Rightarrow> exn + unit" where
  "grouper df k =
     (if k \<notin> set (columns df) then Inl (KeyError k)
      else if 1 < count_list (columns df) k then Inl ValueError
      else Inr ())"

fun is_Hist :: "cell \<Rightarrow> bool" where
  "is_Hist (Hist h) = True"
| "is_Hist _ = False"

text \<open>
  \<open>groupby\<close> leaves out every row in which a key is missing (\<open>dropna=True\<close> is the
  default).
\<close>

fun key_pair :: "cell \<Rightarrow> cell \<Rightarrow> (string \<times> string) option" where
  "key_pair (Str x) (Str y) = Some (x, y)"
| "key_pair _ _ = None"

definition group_keys :: "dataframe \<Rightarrow> string \<Rightarrow> string \<Rightarrow> (string \<times> string) list" where
  "group_keys df a b = List.map_filter (\<lambda>r. key_pair (field r a) (field r b)) (rows df)"

text \<open>
  \<open>df.groupby([a, b]).size()\<close>: one entry for every pair of key values that occurs, in
  ascending order of the pairs (\<open>sort=True\<close> is the default), with the number of rows
  that have it. A list as a key is not hashable and raises \<open>TypeError\<close>.
\<close>

definition groupby_size ::
  "dataframe \<Rightarrow> string \<Rightarrow> string \<Rightarrow> exn + ((string \<times> string) \<times> nat) list" where
  "groupby_size df a b =
     (case grouper df a of
        Inl e \<Rightarrow> Inl e
      | Inr _ \<Rightarrow>
          (case grouper df b of
             Inl e \<Rightarrow> Inl e
           | Inr _ \<Rightarrow>
               (if list_ex (\<lambda>r. is_Hist (field r a) \<or> is_Hist (field r b)) (rows df)
                then Inl TypeError
                else (let keys = group_keys df a b
                      in Inr (map (\<lambda>k. (k, count_list keys k)) (sort (remdups keys)))))))"

text \<open>
  \<open>unstack(fill_value=fill)\<close> turns the second key into columns: the rows are the values
  of the first key, the columns the values of the second, both ascending; a pair without
  an entry gets \<open>fill\<close>.
\<close>

definition unstack :: "((string \<times> string) \<times> nat) list \<Rightarrow> int \<Rightarrow> pivot" where
  "unstack s fill =
     (let idx = sort (remdups (map (fst \<circ> fst) s));
          cols = sort (remdups (map (snd \<circ> fst) s))
      in \<lparr>pcolumns = cols,
          prows = map (\<lambda>r. (r, map (\<lambda>c. (c, case map_of s (r, c) of
                                                 Some n \<Rightarrow> int n | None \<Rightarrow> fill)) cols)) idx\<rparr>)"

text \<open>\<open>agg_df.sum(axis=1)\<close>: the sum of every row.\<close>

definition sum_axis1 :: "pivot \<Rightarrow> int list" where
  "sum_axis1 p = map (\<lambda>(l, cs). sum_list (map snd cs)) (prows p)"

text \<open>\<open>agg_df[k] = values\<close>: replaces the column of that label, or appends one.\<close>

definition set_column :: "pivot \<Rightarrow> string \<Rightarrow> int list \<Rightarrow> pivot" where
  "set_column p k vs =
     \<lparr>pcolumns = (if k \<in> set (pcolumns p) then pcolumns p else pcolumns p @ [k]),
      prows = map (\<lambda>((l, cs), v). (l, AList.update k v cs)) (zip (prows p) vs)\<rparr>"

definition cell_value :: "(string \<times> int) list \<Rightarrow> string \<Rightarrow> int" where
  "cell_value cs k = (case map_of cs k of Some v \<Rightarrow> v | None \<Rightarrow> 0)"

text \<open>
  \<open>sort_values(by=k, ascending=False)\<close> computes from column \<open>k\<close> an indexer, the
  positions of the rows in their new order, and takes the rows in that order. The script
  leaves \<open>kind\<close> at its default (\<open>quicksort\<close>), which is not a stable sort, and numpy's
  sort is no part of the script: the indexer is a parameter \<open>argsort\<close> of the model. What
  the library promises of it is that it is a permutation of the positions that puts the
  values in descending order; where rows of equal value go is left open. Every position
  of such an indexer is in range, so the rows are read in range only.
\<close>

type_synonym argsort = "int list \<Rightarrow> nat list"

definition descending_argsort :: "argsort \<Rightarrow> bool" where
  "descending_argsort argsort \<longleftrightarrow>
     (\<forall>ks. mset (argsort ks) = mset [0..<length ks] \<and>
           sorted_wrt (\<lambda>x y. y \<le> x) (map (\<lambda>i. ks ! i) (argsort ks)))"

definition sort_values_desc :: "argsort \<Rightarrow> pivot \<Rightarrow> string \<Rightarrow> pivot" where
  "sort_values_desc argsort p k =
     p\<lparr>prows := map (\<lambda>i. prows p ! i) (argsort (map (\<lambda>(l, cs). cell_value cs k) (prows p)))\<rparr>"

text \<open>
  One indexer that keeps the promise, the one of a stable sort; it serves to run the
  model on examples.
\<close>

definition stable_argsort :: argsort where
  "stable_argsort ks = sort_key (\<lambda>i. - (ks ! i)) [0..<length ks]"

text \<open>\<open>drop(columns=k)\<close>.\<close>

definition drop_column :: "pivot \<Rightarrow> string \<Rightarrow> pivot" where
  "drop_column p k =
     \<lparr>pcolumns = removeAll k (pcolumns p),
      prows = map (\<lambda>(l, cs). (l, AList.delete k cs)) (prows p)\<rparr>"

text \<open>\<open>sort_index(axis=1)\<close>: the columns in ascending order of their labels.\<close>

definition sort_index_axis1 :: "pivot \<Rightarrow> pivot" where
  "sort_index_axis1 p =
     \<lparr>pcolumns = sort (pcolumns p),
      prows = map (\<lambda>(l, cs). (l, sort_key fst cs)) (prows p)\<rparr>"

subsection \<open>The three views of the script\<close>

text \<open>
  The lines that add the column \<open>Total\<close>, sort by it and drop it again (views 1 and 3).
\<close>

definition sort_by_total :: "argsort \<Rightarrow> pivot \<Rightarrow> pivot" where
  "sort_by_total argsort agg_df =
     drop_column
       (sort_values_desc argsort (set_column agg_df ''Total'' (sum_axis1 agg_df)) ''Total'')
       ''Total''"

definition groupby_size_unstack :: "dataframe \<Rightarrow> string \<Rightarrow> string \<Rightarrow> exn + pivot" where
  "groupby_size_unstack df a b =
     (case groupby_size df a b of Inl e \<Rightarrow> Inl e | Inr s \<Rightarrow> Inr (unstack s 0))"

text \<open>
  The three aggregations, on the frame \<open>df\<close> as it is when the line runs: Group Name by
  Dataset Type (sorted by total), Dataset Type by Group Name (columns sorted only), and
  Dataset Type by Status (sorted by total).
\<close>

definition agg_group_type :: "argsort \<Rightarrow> dataframe \<Rightarrow> exn + pivot" where
  "agg_group_type argsort df =
     (case groupby_size_unstack df ''Group Name'' ''Dataset Type'' of
        Inl e \<Rightarrow> Inl e
      | Inr agg_df \<Rightarrow> Inr (sort_index_axis1 (sort_by_total argsort agg_df)))"

definition agg_type_group :: "dataframe \<Rightarrow> exn + pivot" where
  "agg_type_group df =
     (case groupby_size_unstack df ''Dataset Type'' ''Group Name'' of
        Inl e \<Rightarrow> Inl e
      | Inr agg_df \<Rightarrow> Inr (sort_index_axis1 agg_df))"

definition agg_type_status :: "argsort \<Rightarrow> dataframe \<Rightarrow> exn + pivot" where
  "agg_type_status argsort df =
     (case groupby_size_unstack df ''Dataset Type'' ''Status'' of
        Inl e \<Rightarrow> Inl e
      | Inr agg_df \<Rightarrow> Inr (sort_index_axis1 (sort_by_total argsort agg_df)))"

text \<open>
  Every view is a block of the script that first renames columns of the shared frame
  \<open>df\<close> in place and then computes \<open>agg_df\<close>; a block is a function from the frame to
  the frame it leaves behind and the matrix, or to the exception that ends the script.
\<close>

definition view_group_type :: "argsort \<Rightarrow> dataframe \<Rightarrow> exn + dataframe \<times> pivot" where
  "view_group_type argsort df0 =
     (let df = rename [(''dataset_type'', ''Dataset Type''), (''group_name'', ''Group Name'')] df0
      in case agg_group_type argsort df of Inl e \<Rightarrow> Inl e | Inr agg_df \<Rightarrow> Inr (df, agg_df))"

definition view_type_group :: "dataframe \<Rightarrow> exn + dataframe \<times> pivot" where
  "view_type_group df0 =
     (let df = rename [(''dataset_type'', ''Dataset Type''), (''group_name'', ''Group Name'')] df0
      in case agg_type_group df of Inl e \<Rightarrow> Inl e | Inr agg_df \<Rightarrow> Inr (df, agg_df))"

definition view_type_status :: "argsort \<Rightarrow> dataframe \<Rightarrow> exn + dataframe \<times> pivot" where
  "view_type_status argsort df0 =
     (let df = rename [(''dataset_type'', ''Dataset Type''), (''group_name'', ''Group Name''),
                       (''status'', ''Status'')] df0
      in case agg_type_status argsort df of Inl e \<Rightarrow> Inl e | Inr agg_df \<Rightarrow> Inr (df, agg_df))"

text \<open>
  The first two statements of the script: \<open>data = get_data()\<close> and the filter that
  gives the shared frame \<open>df\<close>.
\<close>

definition filtered :: "response \<Rightarrow> exn + dataframe" where
  "filtered resp = (case get_data resp of Inl e \<Rightarrow> Inl e | Inr data \<Rightarrow> primary_rows data)"

text \<open>
  The script from the fetch to the third matrix: \<open>Inl\<close> is the exception that reaches
  the top level, \<open>Inr\<close> the three matrices in the order in which they are computed.
  The calls that draw the page are left out, and so is the last block of the script,
  which filters \<open>data\<close> once more and computes nothing that is shown.
\<close>

definition script :: "argsort \<Rightarrow> response \<Rightarrow> exn + pivot \<times> pivot \<times> pivot" where
  "script argsort resp =
     (case filtered resp of
        Inl e \<Rightarrow> Inl e
      | Inr df0 \<Rightarrow>
          (case view_group_type argsort df0 of
             Inl e \<Rightarrow> Inl e
           | Inr (df1, agg1) \<Rightarrow>
               (case view_type_group df1 of
                  Inl e \<Rightarrow> Inl e
                | Inr (df2, agg2) \<Rightarrow>
                    (case view_type_status argsort df2 of
                       Inl e \<Rightarrow> Inl e
                     | Inr (df3, agg3) \<Rightarrow> Inr (agg1, agg2, agg3)))))"

subsection \<open>The three views, named\<close>

datatype view = Group_by_Type | Type_by_Group | Type_by_Status

fun aggregation :: "argsort \<Rightarrow> view \<Rightarrow> dataframe \<Rightarrow> exn + pivot" where
  "aggregation argsort Group_by_Type = agg_group_type argsort"
| "aggregation argsort Type_by_Group = agg_type_group"
| "aggregation argsort Type_by_Status = agg_type_status argsort"

text \<open>The two keys of \<open>groupby\<close>: the first gives the rows, the second the columns.\<close>

fun row_key :: "view \<Rightarrow> string" where
  "row_key Group_by_Type = ''Group Name''"
| "row_key Type_by_Group = ''Dataset Type''"
| "row_key Type_by_Status = ''Dataset Type''"

fun col_key :: "view \<Rightarrow> string" where
  "col_key Group_by_Type = ''Dataset Type''"
| "col_key Type_by_Group = ''Group Name''"
| "col_key Type_by_Status = ''Status''"

text \<open>The views whose code sorts the rows by \<open>Total\<close>.\<close>

fun total_sorted :: "view \<Rightarrow> bool" where
  "total_sorted Type_by_Group = False"
| "total_sorted _ = True"

subsection \<open>Blocks in sequence\<close>

text \<open>
  The block of a view, and a run of blocks one after the other on the shared frame, each
  starting from the frame its predecessor left; the run ends at the first exception.
\<close>

fun block :: "argsort \<Rightarrow> view \<Rightarrow> dataframe \<Rightarrow> exn + dataframe \<times> pivot" where
  "block argsort Group_by_Type = view_group_type argsort"
| "block argsort Type_by_Group = view_type_group"
| "block argsort Type_by_Status = view_type_status argsort"

fun run_blocks :: "argsort \<Rightarrow> view list \<Rightarrow> dataframe \<Rightarrow> exn + dataframe" where
  "run_blocks argsort [] df = Inr df"
| "run_blocks argsort (v # vs) df =
     (case block argsort v df of
        Inl e \<Rightarrow> Inl e
      | Inr (df', agg_df) \<Rightarrow> run_blocks argsort vs df')"

text \<open>What a block computes: its matrix, or the exception it raises.\<close>

definition block_result :: "argsort \<Rightarrow> view \<Rightarrow> dataframe \<Rightarrow> exn + pivot" where
  "block_result argsort v df =
     (case block argsort v df of Inl e \<Rightarrow> Inl e | Inr (df', agg_df) \<Rightarrow> Inr agg_df)"

text \<open>The two dictionaries of the \<open>rename\<close> calls.\<close>

abbreviation "type_group_names \<equiv> [(''dataset_type'', ''Dataset Type''), (''group_name'', ''Group Name'')]"

abbreviation "type_group_status_names \<equiv> [(''dataset_type'', ''Dataset Type''), (''group_name'', ''Group Name''),
                       (''status'', ''Status'')]"

subsection \<open>Reading a frame and a matrix\<close>


text \<open>The number of rows of \<open>df\<close> with \<open>x\<close> under \<open>a\<close> and some string under \<open>b\<close>.\<close>

definition row_count :: "dataframe \<Rightarrow> string \<Rightarrow> string \<Rightarrow> string \<Rightarrow> nat" where
  "row_count df a b x =
     length (filter (\<lambda>r. field r a = Str x \<and> (\<exists>y. field r b = Str y)) (rows df))"

text \<open>The sum of the cells of a row of a matrix, and of the whole matrix.\<close>

definition row_total :: "string \<times> (string \<times> int) list \<Rightarrow> int" where
  "row_total r = sum_list (map snd (snd r))"


subsection \<open>Closed forms of the matrices\<close>

text \<open>
  The matrix of the counts of a list of key pairs over given row and column labels, the
  labels that \<open>unstack\<close> produces, the row order after the sort by \<open>Total\<close>, and the
  condition under which \<open>groupby\<close> raises nothing. The properties below are proved by
  showing that the code computes these.
\<close>

definition matrix_of :: "(string \<times> string) list \<Rightarrow> string list \<Rightarrow> string list \<Rightarrow> pivot" where
  "matrix_of keys rs cs =
     \<lparr>pcolumns = cs,
      prows = map (\<lambda>r. (r, map (\<lambda>c. (c, int (count_list keys (r, c)))) cs)) rs\<rparr>"

definition row_labels :: "(string \<times> string) list \<Rightarrow> string list" where
  "row_labels keys = sort (remdups (map fst keys))"

definition col_labels :: "(string \<times> string) list \<Rightarrow> string list" where
  "col_labels keys = sort (remdups (map snd keys))"

definition by_total :: "argsort \<Rightarrow> (string \<times> string) list \<Rightarrow> string list" where
  "by_total argsort keys =
     map (\<lambda>i. row_labels keys ! i)
       (argsort (map (\<lambda>r. int (count_list (map fst keys) r)) (row_labels keys)))"

definition groupable :: "dataframe \<Rightarrow> string \<Rightarrow> string \<Rightarrow> bool" where
  "groupable df a b \<longleftrightarrow>
     count_list (columns df) a = 1 \<and> count_list (columns df) b = 1 \<and>
     \<not> list_ex (\<lambda>r. is_Hist (field r a) \<or> is_Hist (field r b)) (rows df)"

subsection \<open>Records and the frame they give\<close>






subsection \<open>The unused helper \<open>get_list_of_unique_status\<close>\<close>







section \<open>Properties\<close>

subsection \<open>Facts about the frame operations\<close>

lemma set_first_seen [simp]: "set (first_seen xs) = set xs"
  by (simp add: first_seen_def)

lemma distinct_first_seen [simp]: "distinct (first_seen xs)"
  by (simp add: first_seen_def)

lemma columns_DataFrame: "set (columns (DataFrame recs)) = (\<Union>r\<in>set recs. fst ` set r)"
  by (auto simp: DataFrame_def Let_def)

lemma field_tabulate: "field (map (\<lambda>c. (c, f c)) cols) k = (if k \<in> set cols then f k else NaN)"
  by (induction cols) (auto simp: field_def)

lemma rows_DataFrame_field:
  "k \<in> set (columns (DataFrame recs)) \<Longrightarrow>
   map (\<lambda>r. field r k) (rows (DataFrame recs)) = map (\<lambda>r. field r k) recs"
  by (simp add: DataFrame_def Let_def field_tabulate)

lemma field_absent: "k \<notin> fst ` set r \<Longrightarrow> field r k = NaN"
  using map_of_eq_None_iff [of r k] by (simp add: field_def)

lemma series_apply_determine_type:
  "series_apply determine_type_cell col =
     (if NaN \<in> set col then Inl TypeError
      else Inr (map (\<lambda>c. projr (determine_type_cell c)) col))"
proof (induction col)
  case Nil
  then show ?case by simp
next
  case (Cons c col)
  then show ?case by (cases c) (auto split: sum.splits)
qed

lemma script_empty_frame:
  "get_data resp = Inr empty_frame \<Longrightarrow> script argsort resp = Inl (KeyError ''dataset_status'')"
  by (simp add: script_def filtered_def primary_rows_def getitem_def empty_frame_def)



subsection \<open>Facts about the count matrices\<close>

lemma sort_remdups_cong:
  "set xs = set ys \<Longrightarrow> sort (remdups xs) = sort (remdups (ys::'a::linorder list))"
  by (rule sorted_distinct_set_unique) simp_all

lemma map_of_tabulate:
  "map_of (map (\<lambda>k. (k, f k)) ks) k = (if k \<in> set ks then Some (f k) else None)"
  by (induction ks) auto

lemma unstack_sizes:
  "unstack (map (\<lambda>k. (k, count_list keys k)) (sort (remdups keys))) 0
     = matrix_of keys (row_labels keys) (col_labels keys)"
proof -
  let ?s = "map (\<lambda>k. (k, count_list keys k)) (sort (remdups keys))"
  have r: "sort (remdups (map (fst \<circ> fst) ?s)) = row_labels keys"
    unfolding row_labels_def by (rule sort_remdups_cong) (simp add: image_image)
  have c: "sort (remdups (map (snd \<circ> fst) ?s)) = col_labels keys"
    unfolding col_labels_def by (rule sort_remdups_cong) (simp add: image_image)
  have m: "(case map_of ?s k of Some n \<Rightarrow> int n | None \<Rightarrow> 0) = int (count_list keys k)" for k
    by (simp add: map_of_tabulate count_list_0_iff)
  show ?thesis
    unfolding unstack_def Let_def r c matrix_of_def by (simp add: m)
qed

lemma map_zip_same: "map h (zip xs (map g xs)) = map (\<lambda>x. h (x, g x)) xs"
  by (induction xs) auto

lemma cell_value_update: "cell_value (AList.update k v cs) k = v"
  by (simp add: cell_value_def update_conv')

lemma argsort_range:
  assumes "descending_argsort argsort"
  shows "set (argsort ks) = {0..<length ks}"
proof -
  from assms have "mset (argsort ks) = mset [0..<length ks]"
    by (simp add: descending_argsort_def)
  then have "set (argsort ks) = set [0..<length ks]" by (rule mset_eq_setD)
  then show ?thesis by simp
qed

lemma take_map:
  assumes "\<forall>i\<in>set js. i < length xs"
  shows "map (\<lambda>i. map g xs ! i) js = map g (map (\<lambda>i. xs ! i) js)"
  using assms by (induction js) simp_all

lemma take_argsort_map:
  assumes "descending_argsort argsort"
  shows "map (\<lambda>i. map g xs ! i) (argsort (map f xs)) = map g (map (\<lambda>i. xs ! i) (argsort (map f xs)))"
  by (rule take_map) (simp add: argsort_range [OF assms])


lemma sorted_take_argsort:
  assumes "descending_argsort argsort"
  shows "sorted_wrt (\<lambda>a b. f b \<le> f a) (map (\<lambda>i. xs ! i) (argsort (map f xs)))"
proof -
  from assms have "sorted_wrt (\<lambda>x y. y \<le> x) (map (\<lambda>i. map f xs ! i) (argsort (map f xs)))"
    by (simp add: descending_argsort_def)
  then have "sorted_wrt (\<lambda>x y. y \<le> x) (map f (map (\<lambda>i. xs ! i) (argsort (map f xs))))"
    by (simp only: take_argsort_map [OF assms])
  then show ?thesis by (simp add: sorted_wrt_map)
qed

lemma descending_stable_argsort: "descending_argsort stable_argsort"
proof -
  have "sorted_wrt (\<lambda>x y. y \<le> x) (map (\<lambda>i. ks ! i) (stable_argsort ks))" for ks :: "int list"
  proof -
    have "sorted (map (\<lambda>i. - (ks ! i)) (stable_argsort ks))"
      unfolding stable_argsort_def by (rule sorted_sort_key)
    then have "sorted_wrt (\<lambda>x y. - x \<le> - y) (map (\<lambda>i. ks ! i) (stable_argsort ks))"
      by (simp add: sorted_wrt_map)
    then show ?thesis by simp
  qed
  then show ?thesis by (simp add: descending_argsort_def stable_argsort_def)
qed

lemma sort_by_total_eq:
  assumes "descending_argsort argsort"
  shows "sort_by_total argsort p =
     \<lparr>pcolumns = removeAll ''Total'' (pcolumns p),
      prows = map (\<lambda>(l, cs). (l, AList.delete ''Total'' cs))
                (map (\<lambda>i. prows p ! i) (argsort (map (\<lambda>(l, cs). sum_list (map snd cs)) (prows p))))\<rparr>"
proof -
  let ?upd = "\<lambda>(l, cs). (l, AList.update ''Total'' (sum_list (map snd cs)) cs)"
  have k: "map (\<lambda>(l, cs). cell_value cs ''Total'') (map ?upd (prows p))
             = map (\<lambda>(l, cs). sum_list (map snd cs)) (prows p)"
    by (simp add: split_def cell_value_update)
  have d: "(case ?upd a of (l, cs) \<Rightarrow> (l, AList.delete ''Total'' cs))
             = (case a of (l, cs) \<Rightarrow> (l, AList.delete ''Total'' cs))" for a
    by (cases a) (simp add: delete_update_same)
  have s: "prows (set_column p ''Total'' (sum_axis1 p)) = map ?upd (prows p)"
    by (simp add: set_column_def sum_axis1_def map_zip_same split_def)
  have c: "removeAll ''Total'' (pcolumns (set_column p ''Total'' (sum_axis1 p)))
             = removeAll ''Total'' (pcolumns p)"
    by (simp add: set_column_def)
  have t: "map (\<lambda>i. map ?upd (prows p) ! i) (argsort (map (\<lambda>(l, cs). sum_list (map snd cs)) (prows p)))
        = map ?upd (map (\<lambda>i. prows p ! i) (argsort (map (\<lambda>(l, cs). sum_list (map snd cs)) (prows p))))"
    by (rule take_argsort_map [OF assms])
  let ?q = "set_column p ''Total'' (sum_axis1 p)"
  let ?take = "map (\<lambda>i. prows p ! i) (argsort (map (\<lambda>(l, cs). sum_list (map snd cs)) (prows p)))"
  have "prows (sort_values_desc argsort ?q ''Total'')
          = map (\<lambda>i. prows ?q ! i) (argsort (map (\<lambda>(l, cs). cell_value cs ''Total'') (prows ?q)))"
    by (simp add: sort_values_desc_def)
  then have r: "prows (sort_values_desc argsort ?q ''Total'') = map ?upd ?take"
    unfolding s k t .
  have "map (\<lambda>(l, cs). (l, AList.delete ''Total'' cs)) (map ?upd ?take)
          = map (\<lambda>(l, cs). (l, AList.delete ''Total'' cs)) ?take"
    unfolding map_map comp_def d ..
  with r have r': "map (\<lambda>(l, cs). (l, AList.delete ''Total'' cs)) (prows (sort_values_desc argsort ?q ''Total''))
          = map (\<lambda>(l, cs). (l, AList.delete ''Total'' cs)) ?take"
    by simp
  have q: "pcolumns (sort_values_desc argsort ?q ''Total'') = pcolumns ?q"
    by (simp add: sort_values_desc_def)
  show ?thesis
    unfolding sort_by_total_def drop_column_def r' q c ..
qed

lemma delete_tabulate:
  "AList.delete k (map (\<lambda>c. (c, f c)) cs) = map (\<lambda>c. (c, f c)) (removeAll k cs)"
  by (induction cs) auto

lemma sorted_removeAll: "sorted xs \<Longrightarrow> sorted (removeAll k (xs::'a::linorder list))"
  by (induction xs) auto

lemma sum_indicator: 
  "distinct cs \<Longrightarrow> (\<Sum>c\<leftarrow>cs. if y = c then (1::nat) else 0) = (if y \<in> set cs then 1 else 0)"
  by (induction cs) auto

lemma row_sum_count:
  "distinct cs \<Longrightarrow> snd ` set keys \<subseteq> set cs \<Longrightarrow>
   (\<Sum>c\<leftarrow>cs. count_list keys (r, c)) = count_list (map fst keys) r"
proof (induction keys)
  case Nil
  then show ?case by simp
next
  case (Cons k keys)
  obtain x y where k: "k = (x, y)" by (cases k)
  from Cons.prems have y: "y \<in> set cs" by (simp add: k)
  have "(\<Sum>c\<leftarrow>cs. count_list (k # keys) (r, c))
        = (\<Sum>c\<leftarrow>cs. count_list keys (r, c) + (if x = r \<and> y = c then 1 else 0))"
    by (intro arg_cong [where f = sum_list] map_cong refl) (auto simp: k)
  also have "\<dots> = (\<Sum>c\<leftarrow>cs. count_list keys (r, c)) + (\<Sum>c\<leftarrow>cs. if x = r \<and> y = c then 1 else 0)"
    by (simp add: sum_list_addf)
  also have "(\<Sum>c\<leftarrow>cs. if x = r \<and> y = c then 1 else 0) = (if x = r then (1::nat) else 0)"
    using sum_indicator [OF Cons.prems(1), of y] y by (cases "x = r") simp_all
  finally show ?case using Cons by (simp add: k)
qed

lemma sort_index_axis1_matrix_of:
  "sorted cs \<Longrightarrow> sort_index_axis1 (matrix_of keys rs cs) = matrix_of keys rs cs"
  by (simp add: sort_index_axis1_def matrix_of_def sorted_sort_id sort_key_id_if_sorted comp_def)

lemma sort_by_total_matrix_of:
  assumes "descending_argsort argsort"
  shows "sort_by_total argsort (matrix_of keys rs cs) =
     matrix_of keys
       (map (\<lambda>i. rs ! i) (argsort (map (\<lambda>r. \<Sum>c\<leftarrow>cs. int (count_list keys (r, c))) rs)))
       (removeAll ''Total'' cs)"
proof -
  let ?G = "\<lambda>r. (r, map (\<lambda>c. (c, int (count_list keys (r, c)))) cs)"
  let ?f = "\<lambda>r. \<Sum>c\<leftarrow>cs. int (count_list keys (r, c))"
  have p: "prows (matrix_of keys rs cs) = map ?G rs" by (simp add: matrix_of_def)
  have k: "map (\<lambda>(l, cs). sum_list (map snd cs)) (map ?G rs) = map ?f rs"
    by (simp add: comp_def)
  have t: "map (\<lambda>i. map ?G rs ! i) (argsort (map ?f rs)) = map ?G (map (\<lambda>i. rs ! i) (argsort (map ?f rs)))"
    by (rule take_argsort_map [OF assms])
  show ?thesis
    unfolding sort_by_total_eq [OF assms] p k t
    by (simp add: matrix_of_def comp_def delete_tabulate)
qed

lemma sorted_col_labels [simp]: "sorted (col_labels keys)" "distinct (col_labels keys)"
  "set (col_labels keys) = snd ` set keys"
  by (simp_all add: col_labels_def)

lemma sorted_row_labels [simp]: "sorted (row_labels keys)" "distinct (row_labels keys)"
  "set (row_labels keys) = fst ` set keys"
  by (simp_all add: row_labels_def)

lemma sorted_view:
  assumes "descending_argsort argsort"
  shows "sort_index_axis1 (sort_by_total argsort (matrix_of keys (row_labels keys) (col_labels keys)))
     = matrix_of keys (by_total argsort keys) (removeAll ''Total'' (col_labels keys))"
proof -
  have "(\<Sum>c\<leftarrow>col_labels keys. int (count_list keys (r, c))) = int (count_list (map fst keys) r)" for r
    using row_sum_count [of "col_labels keys" keys r]
      sum_list_of_nat [where ?'a = int, of "map (\<lambda>c. count_list keys (r, c)) (col_labels keys)"]
    by (simp add: comp_def)
  then show ?thesis
    by (simp add: sort_by_total_matrix_of [OF assms] sort_index_axis1_matrix_of sorted_removeAll
        by_total_def)
qed


lemma sorted_wrt_by_total:
  assumes "descending_argsort argsort"
  shows "sorted_wrt (\<lambda>l l'. count_list (map fst keys) l' \<le> count_list (map fst keys) l)
           (by_total argsort keys)"
proof -
  have "sorted_wrt (\<lambda>a b. int (count_list (map fst keys) b) \<le> int (count_list (map fst keys) a))
          (by_total argsort keys)"
    unfolding by_total_def by (rule sorted_take_argsort [OF assms])
  then show ?thesis by simp
qed

lemma grouper_Inr: "grouper df k = Inr u \<longleftrightarrow> count_list (columns df) k = 1"
proof (cases "k \<in> set (columns df)")
  case True
  then have "count_list (columns df) k \<noteq> 0" by (simp add: count_list_0_iff)
  with True show ?thesis by (auto simp: grouper_def)
next
  case False
  then have "count_list (columns df) k = 0" by (simp add: count_list_0_iff)
  with False show ?thesis by (simp add: grouper_def)
qed

lemma groupby_size_unstack_ok:
  assumes "groupable df a b"
  shows "groupby_size_unstack df a b =
     Inr (matrix_of (group_keys df a b) (row_labels (group_keys df a b)) (col_labels (group_keys df a b)))"
proof -
  from assms have "grouper df a = Inr ()" "grouper df b = Inr ()"
    by (simp_all add: groupable_def grouper_Inr)
  with assms show ?thesis
    by (simp add: groupby_size_unstack_def groupby_size_def groupable_def Let_def unstack_sizes)
qed

lemma groupby_size_unstack_groupable:
  assumes "groupby_size_unstack df a b = Inr p"
  shows "groupable df a b"
proof -
  from assms obtain u v where "grouper df a = Inr u" "grouper df b = Inr v"
    and "\<not> list_ex (\<lambda>r. is_Hist (field r a) \<or> is_Hist (field r b)) (rows df)"
    by (auto simp: groupby_size_unstack_def groupby_size_def split: sum.splits if_splits)
  then show ?thesis by (simp add: groupable_def grouper_Inr)
qed

lemma agg_group_type_Inr:
  assumes "descending_argsort argsort"
  shows "agg_group_type argsort df = Inr p \<longleftrightarrow>
     groupable df ''Group Name'' ''Dataset Type'' \<and>
     p = (let keys = group_keys df ''Group Name'' ''Dataset Type''
          in matrix_of keys (by_total argsort keys) (removeAll ''Total'' (col_labels keys)))"
proof (cases "groupable df ''Group Name'' ''Dataset Type''")
  case True
  then show ?thesis
    by (auto simp: agg_group_type_def groupby_size_unstack_ok sorted_view [OF assms] Let_def)
next
  case False
  then have "\<nexists>q. groupby_size_unstack df ''Group Name'' ''Dataset Type'' = Inr q"
    using groupby_size_unstack_groupable by blast
  with False show ?thesis
    by (auto simp: agg_group_type_def split: sum.splits)
qed

lemma agg_type_status_Inr:
  assumes "descending_argsort argsort"
  shows "agg_type_status argsort df = Inr p \<longleftrightarrow>
     groupable df ''Dataset Type'' ''Status'' \<and>
     p = (let keys = group_keys df ''Dataset Type'' ''Status''
          in matrix_of keys (by_total argsort keys) (removeAll ''Total'' (col_labels keys)))"
proof (cases "groupable df ''Dataset Type'' ''Status''")
  case True
  then show ?thesis
    by (auto simp: agg_type_status_def groupby_size_unstack_ok sorted_view [OF assms] Let_def)
next
  case False
  then have "\<nexists>q. groupby_size_unstack df ''Dataset Type'' ''Status'' = Inr q"
    using groupby_size_unstack_groupable by blast
  with False show ?thesis
    by (auto simp: agg_type_status_def split: sum.splits)
qed

lemma agg_type_group_Inr:
  "agg_type_group df = Inr p \<longleftrightarrow>
     groupable df ''Dataset Type'' ''Group Name'' \<and>
     p = (let keys = group_keys df ''Dataset Type'' ''Group Name''
          in matrix_of keys (row_labels keys) (col_labels keys))"
proof (cases "groupable df ''Dataset Type'' ''Group Name''")
  case True
  then show ?thesis
    by (auto simp: agg_type_group_def groupby_size_unstack_ok sort_index_axis1_matrix_of Let_def)
next
  case False
  then have "\<nexists>q. groupby_size_unstack df ''Dataset Type'' ''Group Name'' = Inr q"
    using groupby_size_unstack_groupable by blast
  with False show ?thesis
    by (auto simp: agg_type_group_def split: sum.splits)
qed

lemma key_pair_Some: "key_pair u v = Some (x, y) \<longleftrightarrow> u = Str x \<and> v = Str y"
  by (cases "(u, v)" rule: key_pair.cases) auto


lemma set_group_keys:
  "set (group_keys df a b) = {(x, y). \<exists>r\<in>set (rows df). field r a = Str x \<and> field r b = Str y}"
  by (auto simp: group_keys_def List.map_filter_def key_pair_Some image_iff)
     (metis key_pair_Some option.sel option.simps(3))+

lemma mset_group_keys:
  "mset (rows df') = mset (rows df) \<Longrightarrow> mset (group_keys df' a b) = mset (group_keys df a b)"
  by (simp add: group_keys_def List.map_filter_def)

lemma aggregation_Inr:
  assumes "descending_argsort argsort"
  shows "aggregation argsort v df = Inr p \<longleftrightarrow>
     groupable df (row_key v) (col_key v) \<and>
     p = (let keys = group_keys df (row_key v) (col_key v)
          in matrix_of keys (if total_sorted v then by_total argsort keys else row_labels keys)
               (if total_sorted v then removeAll ''Total'' (col_labels keys) else col_labels keys))"
  by (cases v)
    (simp_all add: agg_group_type_Inr [OF assms] agg_type_group_Inr agg_type_status_Inr [OF assms])

text \<open>Whether an aggregation raises does not depend on the sort.\<close>

lemma aggregation_succeeds:
  "(\<exists>p. aggregation argsort v df = Inr p) \<longleftrightarrow> groupable df (row_key v) (col_key v)"
proof (cases "groupable df (row_key v) (col_key v)")
  case True
  then show ?thesis
    by (cases v)
      (simp_all add: agg_group_type_def agg_type_group_def agg_type_status_def
        groupby_size_unstack_ok)
next
  case False
  then have "\<nexists>q. groupby_size_unstack df (row_key v) (col_key v) = Inr q"
    using groupby_size_unstack_groupable by blast
  with False show ?thesis
    by (cases v)
      (auto simp: agg_group_type_def agg_type_group_def agg_type_status_def split: sum.splits)
qed

lemma count_fst_group_keys:
  "count_list (map fst (group_keys df a b)) x = row_count df a b x"
proof -
  have "count_list (map fst (List.map_filter (\<lambda>r. key_pair (field r a) (field r b)) rs)) x
        = length (filter (\<lambda>r. field r a = Str x \<and> (\<exists>y. field r b = Str y)) rs)" for rs
    by (induction rs) (auto simp: List.map_filter_simps key_pair_Some split: option.splits)
  then show ?thesis by (simp add: group_keys_def row_count_def)
qed

lemma prows_matrix_of: "map fst (prows (matrix_of keys rs cs)) = rs"
  by (simp add: matrix_of_def comp_def)

lemma pcolumns_matrix_of: "pcolumns (matrix_of keys rs cs) = cs"
  by (simp add: matrix_of_def)

lemma row_total_matrix_of:
  "(l, cells) \<in> set (prows (matrix_of keys rs cs)) \<Longrightarrow>
    map fst cells = cs \<and> row_total (l, cells) = (\<Sum>c\<leftarrow>cs. int (count_list keys (l, c)))"
  by (auto simp: matrix_of_def row_total_def comp_def)



lemma groupby_size_permutation:
  assumes "mset (rows df') = mset (rows df)" and "columns df' = columns df"
  shows "groupby_size df' a b = groupby_size df a b"
proof -
  from assms(1) have s: "set (rows df') = set (rows df)" by (rule mset_eq_setD)
  have k: "mset (group_keys df' a b) = mset (group_keys df a b)"
    using assms(1) by (rule mset_group_keys)
  then have "set (group_keys df' a b) = set (group_keys df a b)" by (rule mset_eq_setD)
  then have 1: "sort (remdups (group_keys df' a b)) = sort (remdups (group_keys df a b))"
    by (rule sort_remdups_cong)
  have 2: "count_list (group_keys df' a b) x = count_list (group_keys df a b) x" for x
    using k by (metis count_mset)
  show ?thesis
    by (simp add: groupby_size_def grouper_def assms(2) list_ex_iff s Let_def 1 2)
qed

lemma aggregation_permuted:
  assumes "mset (rows df') = mset (rows df)" and "columns df' = columns df"
  shows "aggregation argsort v df' = aggregation argsort v df"
  by (cases v)
    (simp_all add: agg_group_type_def agg_type_group_def agg_type_status_def
      groupby_size_unstack_def groupby_size_permutation [OF assms])

subsection \<open>Facts about renaming\<close>

lemma rename_rename:
  "rename m (rename m' df) =
     \<lparr>columns = map (\<lambda>c. relabel m (relabel m' c)) (columns df),
      rows = map (map (\<lambda>(c, v). (relabel m (relabel m' c), v))) (rows df)\<rparr>"
  by (simp add: rename_def comp_def split_def)

lemma relabel_twice:
  "relabel type_group_names (relabel type_group_names c) = relabel type_group_names c"
  "relabel type_group_status_names (relabel type_group_status_names c) = relabel type_group_status_names c"
  "relabel type_group_names (relabel type_group_status_names c) = relabel type_group_status_names c"
  "relabel type_group_status_names (relabel type_group_names c) = relabel type_group_status_names c"
  by (simp_all add: relabel_def)

lemma rename_twice:
  "rename type_group_names (rename type_group_names df) = rename type_group_names df"
  "rename type_group_status_names (rename type_group_status_names df) = rename type_group_status_names df"
  "rename type_group_names (rename type_group_status_names df) = rename type_group_status_names df"
  "rename type_group_status_names (rename type_group_names df) = rename type_group_status_names df"
  by (simp_all add: rename_rename relabel_twice) (simp_all add: rename_def)

lemma relabel_same_key:
  "k = ''Group Name'' \<or> k = ''Dataset Type'' \<Longrightarrow> relabel type_group_status_names c = k \<longleftrightarrow> relabel type_group_names c = k"
  by (auto simp: relabel_def)

lemma count_list_map_cong:
  "(\<And>c. f c = k \<longleftrightarrow> g c = k) \<Longrightarrow> count_list (map f cs) k = count_list (map g cs) k"
  by (induction cs) auto

lemma field_relabel_cong:
  assumes "\<And>c. f c = k \<longleftrightarrow> g c = k"
  shows "field (map (\<lambda>(c, v). (f c, v)) r) k = field (map (\<lambda>(c, v). (g c, v)) r) k"
proof (induction r)
  case Nil
  then show ?case by simp
next
  case (Cons p r)
  obtain c v where p: "p = (c, v)" by (cases p)
  have "f c = k \<longleftrightarrow> g c = k" by (rule assms)
  with Cons show ?case by (auto simp: field_def p)
qed

lemma grouper_count:
  "grouper df k =
     (if count_list (columns df) k = 0 then Inl (KeyError k)
      else if 1 < count_list (columns df) k then Inl ValueError else Inr ())"
  by (simp add: grouper_def count_list_0_iff)

lemma map_filter_map: "List.map_filter f (map g xs) = List.map_filter (\<lambda>x. f (g x)) xs"
  by (induction xs) (auto simp: List.map_filter_simps split: option.splits)

lemma groupby_size_rename_m3:
  assumes "a = ''Group Name'' \<or> a = ''Dataset Type''" "b = ''Group Name'' \<or> b = ''Dataset Type''"
  shows "groupby_size (rename type_group_status_names df) a b = groupby_size (rename type_group_names df) a b"
proof -
  have c: "count_list (columns (rename type_group_status_names df)) k = count_list (columns (rename type_group_names df)) k"
    if "k = ''Group Name'' \<or> k = ''Dataset Type''" for k
    using that by (simp add: rename_def count_list_map_cong [OF relabel_same_key])
  have f: "field (map (\<lambda>(c, v). (relabel type_group_status_names c, v)) r) k = field (map (\<lambda>(c, v). (relabel type_group_names c, v)) r) k"
    if "k = ''Group Name'' \<or> k = ''Dataset Type''" for k r
    using that by (rule field_relabel_cong [OF relabel_same_key])
  have k: "group_keys (rename type_group_status_names df) a b = group_keys (rename type_group_names df) a b"
    by (simp add: group_keys_def rename_def map_filter_map f [OF assms(1)] f [OF assms(2)])
  have h: "list_ex (\<lambda>r. is_Hist (field r a) \<or> is_Hist (field r b)) (rows (rename type_group_status_names df))
         = list_ex (\<lambda>r. is_Hist (field r a) \<or> is_Hist (field r b)) (rows (rename type_group_names df))"
    by (simp add: rename_def list_ex_iff f [OF assms(1)] f [OF assms(2)])
  show ?thesis
    unfolding groupby_size_def grouper_count c [OF assms(1)] c [OF assms(2)] h k ..
qed

lemma block_rename:
  "block argsort v df =
     (case aggregation argsort v
             (rename (if v = Type_by_Status then type_group_status_names else type_group_names) df) of
        Inl e \<Rightarrow> Inl e
      | Inr agg_df \<Rightarrow>
          Inr (rename (if v = Type_by_Status then type_group_status_names else type_group_names) df,
               agg_df))"
  by (cases v) (simp_all add: view_group_type_def view_type_group_def view_type_status_def Let_def)

lemma block_result_rename:
  "block_result argsort v df =
     aggregation argsort v
       (rename (if v = Type_by_Status then type_group_status_names else type_group_names) df)"
  by (simp add: block_result_def block_rename split: sum.splits)

lemma aggregation_rename_m3:
  "v \<noteq> Type_by_Status \<Longrightarrow>
   aggregation argsort v (rename type_group_status_names df)
     = aggregation argsort v (rename type_group_names df)"
  by (cases v)
    (simp_all add: agg_group_type_def agg_type_group_def groupby_size_unstack_def
      groupby_size_rename_m3)

lemma run_blocks_frame:
  "run_blocks argsort vs df0 = Inr df \<Longrightarrow>
   df = df0 \<or> df = rename type_group_names df0 \<or> df = rename type_group_status_names df0"
proof (induction vs arbitrary: df0)
  case Nil
  then show ?case by simp
next
  case (Cons v vs)
  let ?m = "if v = Type_by_Status then type_group_status_names else type_group_names"
  from Cons.prems have "run_blocks argsort vs (rename ?m df0) = Inr df"
    by (auto simp: block_rename split: sum.splits)
  from Cons.IH [OF this] show ?case
    by (auto simp: rename_twice split: if_splits)
qed

subsection \<open>Facts about the filtered frame\<close>













lemma script_views:
  assumes "filtered resp = Inr df0"
  shows "script argsort resp =
     (case aggregation argsort Group_by_Type (rename type_group_names df0) of
        Inl e \<Rightarrow> Inl e
      | Inr agg1 \<Rightarrow>
          (case aggregation argsort Type_by_Group (rename type_group_names df0) of
             Inl e \<Rightarrow> Inl e
           | Inr agg2 \<Rightarrow>
               (case aggregation argsort Type_by_Status (rename type_group_status_names df0) of
                  Inl e \<Rightarrow> Inl e
                | Inr agg3 \<Rightarrow> Inr (agg1, agg2, agg3))))"
  using assms
  by (simp add: script_def view_group_type_def view_type_group_def view_type_status_def
      Let_def rename_twice split: sum.splits)











text \<open>A frame that has the key columns and no row gives the matrix without rows and columns.\<close>

lemma aggregation_no_rows:
  assumes "descending_argsort argsort"
    and "count_list cols (row_key v) = 1" "count_list cols (col_key v) = 1"
  shows "aggregation argsort v \<lparr>columns = cols, rows = []\<rparr> = Inr \<lparr>pcolumns = [], prows = []\<rparr>"
proof -
  have "argsort [] = []"
    using argsort_range [OF assms(1), of "[]"] by simp
  with assms(2,3) show ?thesis
    by (simp add: aggregation_Inr [OF assms(1)] groupable_def group_keys_def List.map_filter_simps
        matrix_of_def by_total_def row_labels_def col_labels_def)
qed

subsection \<open>Facts about the script on permuted input\<close>

lemma rename_permuted:
  assumes "mset (rows df') = mset (rows df)" and "columns df' = columns df"
  shows "mset (rows (rename m df')) = mset (rows (rename m df))"
    and "columns (rename m df') = columns (rename m df)"
  using assms by (simp_all add: rename_def)

lemma script_permuted:
  assumes "filtered resp' = Inr df'" and "filtered resp = Inr df"
    and "mset (rows df') = mset (rows df)" and "columns df' = columns df"
  shows "script argsort resp' = script argsort resp"
proof -
  have "aggregation argsort v (rename m df') = aggregation argsort v (rename m df)" for v m
    by (rule aggregation_permuted [OF rename_permuted [OF assms(3,4)]])
  then show ?thesis
    unfolding script_views [OF assms(1)] script_views [OF assms(2)] by (simp only:)
qed

text \<open>The script ends without exception when the key pairs of its views can be grouped.\<close>

lemma script_succeeds:
  assumes "filtered resp = Inr df0"
    and "agg_type_group (rename type_group_names df0) = Inr agg2"
    and "groupable (rename type_group_names df0) ''Group Name'' ''Dataset Type''"
    and "groupable (rename type_group_status_names df0) ''Dataset Type'' ''Status''"
  shows "\<exists>agg1 agg3. script argsort resp = Inr (agg1, agg2, agg3)"
proof -
  from assms(3) obtain agg1 where
    1: "aggregation argsort Group_by_Type (rename type_group_names df0) = Inr agg1"
    using aggregation_succeeds [of argsort Group_by_Type] by auto
  from assms(4) obtain agg3 where
    3: "aggregation argsort Type_by_Status (rename type_group_status_names df0) = Inr agg3"
    using aggregation_succeeds [of argsort Type_by_Status] by auto
  have 2: "aggregation argsort Type_by_Group (rename type_group_names df0) = Inr agg2"
    using assms(2) by simp
  have "script argsort resp = Inr (agg1, agg2, agg3)"
    unfolding script_views [OF assms(1)] 1 2 3 by simp
  then show ?thesis by blast
qed

subsection \<open>Classifier\<close>

lemma startswith_single: "startswith s [c] = (s \<noteq> [] \<and> hd s = c)"
  by (cases s) auto

lemma str_contains_single: "str_contains [c] s = (c \<in> set s)"
  by (induction s) (auto simp: startswith_single)

text \<open>
  C1. \<open>determine_type\<close> answers \<open>Derived\<close> exactly when the string holds at least one
  \<open>[\<close> and at least one \<open>]\<close>, wherever they stand, and \<open>Primary\<close> in every other case.
\<close>

theorem determine_type_brackets:
  "(determine_type s = ''Derived'' \<longleftrightarrow> CHR ''['' \<in> set s \<and> CHR '']'' \<in> set s) \<and>
   (determine_type s = ''Primary'' \<longleftrightarrow> \<not> (CHR ''['' \<in> set s \<and> CHR '']'' \<in> set s))"
  by (simp add: determine_type_def str_contains_single)

theorem determine_type_brackets_witness:
  "determine_type '']foo['' = ''Derived'' \<and> determine_type ''RNAseq'' = ''Primary''"
  using determine_type_brackets [of "'']foo[''"] determine_type_brackets [of "''RNAseq''"]
  by simp

subsection \<open>Fetcher failures\<close>

text \<open>
  C2. A 4xx or 5xx status, a request that fails, a body that is not JSON and a JSON
  object without the key \<open>data\<close> all make \<open>get_data\<close> return the empty DataFrame; no
  exception leaves it.
\<close>

theorem get_data_failure_empty:
  "(400 \<le> code \<and> code < 600 \<longrightarrow> get_data (Response code b) = Inr empty_frame) \<and>
   get_data RequestFailed = Inr empty_frame \<and>
   get_data (Response code NotJson) = Inr empty_frame \<and>
   (map_of json_data ''data'' = None \<longrightarrow>
      get_data (Response code (JsonObject json_data)) = Inr empty_frame)"
  by (simp add: get_data_def get_data_try_def raise_for_status_def)

theorem get_data_failure_empty_witness:
  "get_data (Response 500 (JsonObject [(''data'', [[(''dataset_type'', Str ''RNAseq'')]])]))
     = Inr empty_frame \<and>
   get_data (Response 200 NotJson) = Inr empty_frame \<and>
   get_data (Response 200 (JsonObject [(''message'', [])])) = Inr empty_frame"
  using get_data_failure_empty [of 500 "JsonObject [(''data'', [[(''dataset_type'', Str ''RNAseq'')]])]" "[]"]
    get_data_failure_empty [of 200 NotJson "[(''message'', [])]"]
  by simp

subsection \<open>The script after a failed fetch\<close>

text \<open>
  C3. After a failed fetch \<open>get_data\<close> hands the script \<open>pd.DataFrame()\<close>, which has no
  column at all; the filter \<open>data["dataset_status"] == "Primary"\<close> then raises
  \<open>KeyError\<close>, and no matrix is computed. The same happens when the \<open>data\<close> array is
  empty.
\<close>

theorem script_after_failed_fetch:
  "script argsort RequestFailed = Inl (KeyError ''dataset_status'') \<and>
   script argsort (Response 500 b) = Inl (KeyError ''dataset_status'') \<and>
   script argsort (Response code NotJson) = Inl (KeyError ''dataset_status'') \<and>
   script argsort (Response code (JsonObject [])) = Inl (KeyError ''dataset_status'') \<and>
   script argsort (Response 200 (JsonObject [(''data'', [])])) = Inl (KeyError ''dataset_status'')"
  by (simp add: script_empty_frame get_data_def get_data_try_def raise_for_status_def
      DataFrame_def first_seen_def getitem_def)

subsection \<open>Records without \<open>dataset_type\<close>\<close>

text \<open>
  C7, as stated, fails: when no record has the key \<open>dataset_type\<close> the \<open>KeyError\<close> of
  \<open>df["dataset_type"]\<close> is raised inside the \<open>try\<close> block and caught by
  \<open>except (ValueError, KeyError)\<close>, so \<open>get_data\<close> returns the empty DataFrame.
\<close>

theorem get_data_swallows_missing_dataset_type:
  "get_data (Response 200 (JsonObject [(''data'', [[(''group_name'', Str ''TMC'')]])]))
     = Inr empty_frame"
  by (simp add: get_data_def get_data_try_def raise_for_status_def DataFrame_def
      first_seen_def getitem_def)

text \<open>
  C7, amended. On a successful answer: when no record has the key \<open>dataset_type\<close>,
  \<open>get_data\<close> catches the \<open>KeyError\<close> and returns the empty DataFrame; when some
  records have the key and others lack it, the classifier is called on \<open>NaN\<close> and its
  \<open>TypeError\<close> leaves \<open>get_data\<close> uncaught.
\<close>

theorem get_data_missing_dataset_type:
  assumes "\<not> (400 \<le> code \<and> code < 600)" and "map_of json_data ''data'' = Some recs"
  shows
    "((\<forall>r\<in>set recs. ''dataset_type'' \<notin> fst ` set r) \<longrightarrow>
        get_data (Response code (JsonObject json_data)) = Inr empty_frame) \<and>
     ((\<exists>r\<in>set recs. ''dataset_type'' \<in> fst ` set r) \<and>
      (\<exists>r\<in>set recs. ''dataset_type'' \<notin> fst ` set r) \<longrightarrow>
        get_data (Response code (JsonObject json_data)) = Inl TypeError)"
proof (intro conjI impI)
  assume "\<forall>r\<in>set recs. ''dataset_type'' \<notin> fst ` set r"
  then have "''dataset_type'' \<notin> set (columns (DataFrame recs))"
    by (simp add: columns_DataFrame)
  with assms show "get_data (Response code (JsonObject json_data)) = Inr empty_frame"
    by (simp add: get_data_def get_data_try_def raise_for_status_def getitem_def)
next
  assume a: "(\<exists>r\<in>set recs. ''dataset_type'' \<in> fst ` set r) \<and>
             (\<exists>r\<in>set recs. ''dataset_type'' \<notin> fst ` set r)"
  then have c: "''dataset_type'' \<in> set (columns (DataFrame recs))"
    by (simp add: columns_DataFrame)
  from a obtain r where "r \<in> set recs" "field r ''dataset_type'' = NaN"
    using field_absent by blast
  then have "NaN \<in> set (map (\<lambda>r. field r ''dataset_type'') recs)"
    by force
  with assms c show "get_data (Response code (JsonObject json_data)) = Inl TypeError"
    by (simp add: get_data_def get_data_try_def raise_for_status_def getitem_def
        rows_DataFrame_field series_apply_determine_type del: set_map)
qed

theorem get_data_missing_dataset_type_witness:
  "get_data (Response 200 (JsonObject [(''data'',
       [[(''group_name'', Str ''TMC'')], [(''group_name'', Str ''CODCC'')]])])) = Inr empty_frame \<and>
   get_data (Response 200 (JsonObject [(''data'',
       [[(''dataset_type'', Str ''RNAseq'')], [(''group_name'', Str ''CODCC'')]])])) = Inl TypeError"
proof -
  have ok: "\<not> (400 \<le> (200::nat) \<and> (200::nat) < 600)" by simp
  have d1: "map_of [(''data'', [[(''group_name'', Str ''TMC'')], [(''group_name'', Str ''CODCC'')]])] ''data''
      = Some [[(''group_name'', Str ''TMC'')], [(''group_name'', Str ''CODCC'')]]" by simp
  have d2: "map_of [(''data'', [[(''dataset_type'', Str ''RNAseq'')], [(''group_name'', Str ''CODCC'')]])] ''data''
      = Some [[(''dataset_type'', Str ''RNAseq'')], [(''group_name'', Str ''CODCC'')]]" by simp
  show ?thesis
    using get_data_missing_dataset_type [OF ok d1] get_data_missing_dataset_type [OF ok d2]
    by simp
qed

subsection \<open>The helper \<open>get_list_of_unique_status\<close>\<close>




subsection \<open>Order of columns and rows\<close>

text \<open>
  C4, as stated, fails twice. The view Dataset Type by Group Name has no sort by total:
  its rows stay in ascending order of the dataset type, here with the totals 1 and 3,
  whatever the sort of the other two views does. And first-seen order does not decide
  between rows of equal total: the two inputs below are permutations of each other, the
  groups \<open>TMC\<close> and \<open>CODCC\<close> have two records each, \<open>TMC\<close> is seen first in one input
  and \<open>CODCC\<close> in the other, and yet, whatever the sort does, the rows of the view Group
  Name by Dataset Type cannot stand in first-seen order in both runs (the two runs give
  the same matrices).
\<close>

theorem aggregation_order_counterexample:
  "(\<forall>argsort. \<exists>agg1 agg2 agg3.
      script argsort (Response 200 (JsonObject [(''data'',
       [[(''dataset_type'', Str ''B''), (''group_name'', Str ''TMC''), (''status'', Str ''New'')],
        [(''dataset_type'', Str ''B''), (''group_name'', Str ''CODCC''), (''status'', Str ''New'')],
        [(''dataset_type'', Str ''B''), (''group_name'', Str ''TMC''), (''status'', Str ''QA'')],
        [(''dataset_type'', Str ''A''), (''group_name'', Str ''CODCC''), (''status'', Str ''New'')]])])) = Inr (agg1, agg2, agg3) \<and>
      map row_total (prows agg2) = [1, 3] \<and>
      \<not> sorted_wrt (\<lambda>r s. row_total s \<le> row_total r) (prows agg2)) \<and>
   (\<forall>argsort. script argsort (Response 200 (JsonObject [(''data'',
       [[(''dataset_type'', Str ''B''), (''group_name'', Str ''CODCC''), (''status'', Str ''New'')],
        [(''dataset_type'', Str ''A''), (''group_name'', Str ''CODCC''), (''status'', Str ''New'')],
        [(''dataset_type'', Str ''B''), (''group_name'', Str ''TMC''), (''status'', Str ''New'')],
        [(''dataset_type'', Str ''B''), (''group_name'', Str ''TMC''), (''status'', Str ''QA'')]])])) =
      script argsort (Response 200 (JsonObject [(''data'',
       [[(''dataset_type'', Str ''B''), (''group_name'', Str ''TMC''), (''status'', Str ''New'')],
        [(''dataset_type'', Str ''B''), (''group_name'', Str ''CODCC''), (''status'', Str ''New'')],
        [(''dataset_type'', Str ''B''), (''group_name'', Str ''TMC''), (''status'', Str ''QA'')],
        [(''dataset_type'', Str ''A''), (''group_name'', Str ''CODCC''), (''status'', Str ''New'')]])]))) \<and>
   (\<forall>argsort agg1 agg2 agg3 agg1' agg2' agg3'.
      \<not> (script argsort (Response 200 (JsonObject [(''data'',
       [[(''dataset_type'', Str ''B''), (''group_name'', Str ''TMC''), (''status'', Str ''New'')],
        [(''dataset_type'', Str ''B''), (''group_name'', Str ''CODCC''), (''status'', Str ''New'')],
        [(''dataset_type'', Str ''B''), (''group_name'', Str ''TMC''), (''status'', Str ''QA'')],
        [(''dataset_type'', Str ''A''), (''group_name'', Str ''CODCC''), (''status'', Str ''New'')]])])) = Inr (agg1, agg2, agg3) \<and>
         script argsort (Response 200 (JsonObject [(''data'',
       [[(''dataset_type'', Str ''B''), (''group_name'', Str ''CODCC''), (''status'', Str ''New'')],
        [(''dataset_type'', Str ''A''), (''group_name'', Str ''CODCC''), (''status'', Str ''New'')],
        [(''dataset_type'', Str ''B''), (''group_name'', Str ''TMC''), (''status'', Str ''New'')],
        [(''dataset_type'', Str ''B''), (''group_name'', Str ''TMC''), (''status'', Str ''QA'')]])])) = Inr (agg1', agg2', agg3') \<and>
         map fst (prows agg1) = [''TMC'', ''CODCC''] \<and>
         map fst (prows agg1') = [''CODCC'', ''TMC''])) \<and>
   first_seen (map (\<lambda>r. field r ''group_name'')
       [[(''dataset_type'', Str ''B''), (''group_name'', Str ''TMC''), (''status'', Str ''New'')],
        [(''dataset_type'', Str ''B''), (''group_name'', Str ''CODCC''), (''status'', Str ''New'')],
        [(''dataset_type'', Str ''B''), (''group_name'', Str ''TMC''), (''status'', Str ''QA'')],
        [(''dataset_type'', Str ''A''), (''group_name'', Str ''CODCC''), (''status'', Str ''New'')]]) = [Str ''TMC'', Str ''CODCC''] \<and>
   first_seen (map (\<lambda>r. field r ''group_name'')
       [[(''dataset_type'', Str ''B''), (''group_name'', Str ''CODCC''), (''status'', Str ''New'')],
        [(''dataset_type'', Str ''A''), (''group_name'', Str ''CODCC''), (''status'', Str ''New'')],
        [(''dataset_type'', Str ''B''), (''group_name'', Str ''TMC''), (''status'', Str ''New'')],
        [(''dataset_type'', Str ''B''), (''group_name'', Str ''TMC''), (''status'', Str ''QA'')]]) = [Str ''CODCC'', Str ''TMC''] \<and>
   map (\<lambda>g. length (filter (\<lambda>r. field r ''group_name'' = Str g)
       [[(''dataset_type'', Str ''B''), (''group_name'', Str ''TMC''), (''status'', Str ''New'')],
        [(''dataset_type'', Str ''B''), (''group_name'', Str ''CODCC''), (''status'', Str ''New'')],
        [(''dataset_type'', Str ''B''), (''group_name'', Str ''TMC''), (''status'', Str ''QA'')],
        [(''dataset_type'', Str ''A''), (''group_name'', Str ''CODCC''), (''status'', Str ''New'')]])) [''TMC'', ''CODCC''] = [2, 2]"
proof -
  let ?resp = "(Response 200 (JsonObject [(''data'',
       [[(''dataset_type'', Str ''B''), (''group_name'', Str ''TMC''), (''status'', Str ''New'')],
        [(''dataset_type'', Str ''B''), (''group_name'', Str ''CODCC''), (''status'', Str ''New'')],
        [(''dataset_type'', Str ''B''), (''group_name'', Str ''TMC''), (''status'', Str ''QA'')],
        [(''dataset_type'', Str ''A''), (''group_name'', Str ''CODCC''), (''status'', Str ''New'')]])]))"
  let ?resp' = "(Response 200 (JsonObject [(''data'',
       [[(''dataset_type'', Str ''B''), (''group_name'', Str ''CODCC''), (''status'', Str ''New'')],
        [(''dataset_type'', Str ''A''), (''group_name'', Str ''CODCC''), (''status'', Str ''New'')],
        [(''dataset_type'', Str ''B''), (''group_name'', Str ''TMC''), (''status'', Str ''New'')],
        [(''dataset_type'', Str ''B''), (''group_name'', Str ''TMC''), (''status'', Str ''QA'')]])]))"
  let ?df = "\<lparr>columns = [''dataset_type'', ''group_name'', ''status'', ''dataset_status''],
        rows = [[(''dataset_type'', Str ''B''), (''group_name'', Str ''TMC''), (''status'', Str ''New''), (''dataset_status'', Str ''Primary'')],
                [(''dataset_type'', Str ''B''), (''group_name'', Str ''CODCC''), (''status'', Str ''New''), (''dataset_status'', Str ''Primary'')],
                [(''dataset_type'', Str ''B''), (''group_name'', Str ''TMC''), (''status'', Str ''QA''), (''dataset_status'', Str ''Primary'')],
                [(''dataset_type'', Str ''A''), (''group_name'', Str ''CODCC''), (''status'', Str ''New''), (''dataset_status'', Str ''Primary'')]]\<rparr>"
  let ?df' = "\<lparr>columns = [''dataset_type'', ''group_name'', ''status'', ''dataset_status''],
        rows = [[(''dataset_type'', Str ''B''), (''group_name'', Str ''CODCC''), (''status'', Str ''New''), (''dataset_status'', Str ''Primary'')],
                [(''dataset_type'', Str ''A''), (''group_name'', Str ''CODCC''), (''status'', Str ''New''), (''dataset_status'', Str ''Primary'')],
                [(''dataset_type'', Str ''B''), (''group_name'', Str ''TMC''), (''status'', Str ''New''), (''dataset_status'', Str ''Primary'')],
                [(''dataset_type'', Str ''B''), (''group_name'', Str ''TMC''), (''status'', Str ''QA''), (''dataset_status'', Str ''Primary'')]]\<rparr>"
  let ?agg2 = "\<lparr>pcolumns = [''CODCC'', ''TMC''],
        prows = [(''A'', [(''CODCC'', 1), (''TMC'', 0)]), (''B'', [(''CODCC'', 1), (''TMC'', 2)])]\<rparr>"
  have f: "filtered ?resp = Inr ?df" by code_simp
  have f': "filtered ?resp' = Inr ?df'" by code_simp
  have a: "agg_type_group (rename type_group_names ?df) = Inr ?agg2" by code_simp
  have g1: "groupable (rename type_group_names ?df) ''Group Name'' ''Dataset Type''" by code_simp
  have g3: "groupable (rename type_group_status_names ?df) ''Dataset Type'' ''Status''" by code_simp
  have 1: "\<exists>agg1 agg2 agg3. script argsort ?resp = Inr (agg1, agg2, agg3) \<and>
      map row_total (prows agg2) = [1, 3] \<and>
      \<not> sorted_wrt (\<lambda>r s. row_total s \<le> row_total r) (prows agg2)" for argsort
  proof -
    from script_succeeds [OF f a g1 g3] obtain agg1 agg3
      where "script argsort ?resp = Inr (agg1, ?agg2, agg3)" by blast
    moreover have "map row_total (prows ?agg2) = [1, 3]" by (simp add: row_total_def)
    ultimately show ?thesis by (intro exI [of _ agg1] exI [of _ ?agg2] exI [of _ agg3]) simp
  qed
  have m: "mset (rows ?df') = mset (rows ?df)" by simp
  have c: "columns ?df' = columns ?df" by simp
  have e: "script argsort ?resp' = script argsort ?resp" for argsort
    by (rule script_permuted [OF f' f m c])
  have 2: "\<not> (script argsort ?resp = Inr (agg1, agg2, agg3) \<and>
         script argsort ?resp' = Inr (agg1', agg2', agg3') \<and>
         map fst (prows agg1) = [''TMC'', ''CODCC''] \<and>
         map fst (prows agg1') = [''CODCC'', ''TMC''])"
    for argsort agg1 agg2 agg3 agg1' agg2' agg3'
    unfolding e by auto
  have 3: "first_seen (map (\<lambda>r. field r ''group_name'')
       [[(''dataset_type'', Str ''B''), (''group_name'', Str ''TMC''), (''status'', Str ''New'')],
        [(''dataset_type'', Str ''B''), (''group_name'', Str ''CODCC''), (''status'', Str ''New'')],
        [(''dataset_type'', Str ''B''), (''group_name'', Str ''TMC''), (''status'', Str ''QA'')],
        [(''dataset_type'', Str ''A''), (''group_name'', Str ''CODCC''), (''status'', Str ''New'')]]) = [Str ''TMC'', Str ''CODCC'']" by code_simp
  have 4: "first_seen (map (\<lambda>r. field r ''group_name'')
       [[(''dataset_type'', Str ''B''), (''group_name'', Str ''CODCC''), (''status'', Str ''New'')],
        [(''dataset_type'', Str ''A''), (''group_name'', Str ''CODCC''), (''status'', Str ''New'')],
        [(''dataset_type'', Str ''B''), (''group_name'', Str ''TMC''), (''status'', Str ''New'')],
        [(''dataset_type'', Str ''B''), (''group_name'', Str ''TMC''), (''status'', Str ''QA'')]]) = [Str ''CODCC'', Str ''TMC'']" by code_simp
  have 5: "map (\<lambda>g. length (filter (\<lambda>r. field r ''group_name'' = Str g)
       [[(''dataset_type'', Str ''B''), (''group_name'', Str ''TMC''), (''status'', Str ''New'')],
        [(''dataset_type'', Str ''B''), (''group_name'', Str ''CODCC''), (''status'', Str ''New'')],
        [(''dataset_type'', Str ''B''), (''group_name'', Str ''TMC''), (''status'', Str ''QA'')],
        [(''dataset_type'', Str ''A''), (''group_name'', Str ''CODCC''), (''status'', Str ''New'')]])) [''TMC'', ''CODCC''] = [2, 2]" by code_simp
  from 1 e 2 3 4 5 show ?thesis by blast
qed

text \<open>
  C4, amended. The sort of \<open>sort_values\<close> is any sort that puts the rows in descending
  order of \<open>Total\<close>; what it does with rows of equal total is left open (the script
  leaves \<open>kind\<close> at its default, which is not a stable sort). In every matrix the columns
  are in ascending order of their labels and every row has its cells in that order. In
  the two views that sort by \<open>Total\<close> (Group Name by Dataset Type, Dataset Type by Status)
  the rows are in descending order of the number of grouped records of the row; that
  number is the sum of the row's cells when no record has the column value \<open>Total\<close>. In
  the view Dataset Type by Group Name the rows are in ascending order of their labels.
\<close>

theorem aggregation_order:
  assumes "descending_argsort argsort" and "aggregation argsort v df = Inr p"
  shows "sorted (pcolumns p) \<and> distinct (pcolumns p) \<and>
         (\<forall>(l, cs)\<in>set (prows p). map fst cs = pcolumns p) \<and>
         (total_sorted v \<longrightarrow>
            sorted_wrt (\<lambda>l l'. row_count df (row_key v) (col_key v) l' \<le> row_count df (row_key v) (col_key v) l)
              (map fst (prows p))) \<and>
         (total_sorted v \<and> (\<forall>r\<in>set (rows df). field r (col_key v) \<noteq> Str ''Total'') \<longrightarrow>
            (\<forall>r\<in>set (prows p). row_total r = int (row_count df (row_key v) (col_key v) (fst r))) \<and>
            sorted_wrt (\<lambda>r s. row_total s \<le> row_total r) (prows p)) \<and>
         (\<not> total_sorted v \<longrightarrow> sorted (map fst (prows p)) \<and> distinct (map fst (prows p)))"
proof -
  let ?keys = "group_keys df (row_key v) (col_key v)"
  let ?rs = "if total_sorted v then by_total argsort ?keys else row_labels ?keys"
  let ?cs = "if total_sorted v then removeAll ''Total'' (col_labels ?keys) else col_labels ?keys"
  let ?n = "row_count df (row_key v) (col_key v)"
  from assms have p: "p = matrix_of ?keys ?rs ?cs"
    by (simp add: aggregation_Inr Let_def)
  have 1: "sorted (pcolumns p)" "distinct (pcolumns p)"
    by (simp_all add: p pcolumns_matrix_of sorted_removeAll distinct_removeAll)
  have 2: "\<forall>(l, cs)\<in>set (prows p). map fst cs = pcolumns p"
    unfolding p using row_total_matrix_of [of _ _ ?keys ?rs ?cs]
    by (auto simp: pcolumns_matrix_of)
  have 3: "sorted_wrt (\<lambda>l l'. ?n l' \<le> ?n l) (map fst (prows p))" if "total_sorted v"
    using that sorted_wrt_by_total [OF assms(1), of ?keys]
    by (simp add: p prows_matrix_of count_fst_group_keys)
  have 4: "\<forall>r\<in>set (prows p). row_total r = int (?n (fst r))"
    if t: "total_sorted v" and n: "\<forall>r\<in>set (rows df). field r (col_key v) \<noteq> Str ''Total''"
  proof
    fix r assume r: "r \<in> set (prows p)"
    from n have "''Total'' \<notin> snd ` set ?keys"
      by (auto simp: set_group_keys)
    then have cs: "?cs = col_labels ?keys"
      by (simp add: removeAll_id)
    obtain l cells where lc: "r = (l, cells)" by (cases r)
    with r have "row_total r = (\<Sum>c\<leftarrow>col_labels ?keys. int (count_list ?keys (l, c)))"
      using row_total_matrix_of [of l cells ?keys ?rs ?cs] unfolding p cs by simp
    also have "\<dots> = int (count_list (map fst ?keys) l)"
      using row_sum_count [of "col_labels ?keys" ?keys l]
        sum_list_of_nat [where ?'a = int, of "map (\<lambda>c. count_list ?keys (l, c)) (col_labels ?keys)"]
      by (simp add: comp_def)
    finally show "row_total r = int (?n (fst r))"
      by (simp add: lc count_fst_group_keys)
  qed
  have 5: "sorted_wrt (\<lambda>r s. row_total s \<le> row_total r) (prows p)"
    if t: "total_sorted v" and n: "\<forall>r\<in>set (rows df). field r (col_key v) \<noteq> Str ''Total''"
  proof -
    have "sorted_wrt (\<lambda>r s. ?n (fst s) \<le> ?n (fst r)) (prows p)"
      using 3 [OF t] by (simp add: sorted_wrt_map)
    then show ?thesis
      by (rule sorted_wrt_mono_rel [rotated]) (simp add: 4 [OF t n])
  qed
  have 6: "sorted (map fst (prows p)) \<and> distinct (map fst (prows p))" if "\<not> total_sorted v"
    using that by (simp add: p prows_matrix_of)
  from 1 2 3 4 5 6 show ?thesis by blast
qed

theorem aggregation_order_witness:
  "aggregation stable_argsort Type_by_Status
     \<lparr>columns = [''Dataset Type'', ''Group Name'', ''Status''],
      rows = [[(''Dataset Type'', Str ''B''), (''Group Name'', Str ''TMC''), (''Status'', Str ''New'')],
              [(''Dataset Type'', Str ''B''), (''Group Name'', Str ''CODCC''), (''Status'', Str ''New'')],
              [(''Dataset Type'', Str ''A''), (''Group Name'', Str ''TMC''), (''Status'', Str ''QA'')]]\<rparr>
     = Inr \<lparr>pcolumns = [''New'', ''QA''],
      prows = [(''B'', [(''New'', 2), (''QA'', 0)]), (''A'', [(''New'', 0), (''QA'', 1)])]\<rparr> \<and>
   sorted [''New'', ''QA''] \<and>
   row_total (''B'', [(''New'', 2), (''QA'', 0)]) =
     int (row_count \<lparr>columns = [''Dataset Type'', ''Group Name'', ''Status''],
      rows = [[(''Dataset Type'', Str ''B''), (''Group Name'', Str ''TMC''), (''Status'', Str ''New'')],
              [(''Dataset Type'', Str ''B''), (''Group Name'', Str ''CODCC''), (''Status'', Str ''New'')],
              [(''Dataset Type'', Str ''A''), (''Group Name'', Str ''TMC''), (''Status'', Str ''QA'')]]\<rparr> ''Dataset Type'' ''Status'' ''B'') \<and>
   sorted_wrt (\<lambda>r s. row_total s \<le> row_total r)
     [(''B'', [(''New'', 2), (''QA'', 0)]), (''A'', [(''New'', 0), (''QA'', 1)])] \<and>
   aggregation stable_argsort Type_by_Group
     \<lparr>columns = [''Dataset Type'', ''Group Name'', ''Status''],
      rows = [[(''Dataset Type'', Str ''B''), (''Group Name'', Str ''TMC''), (''Status'', Str ''New'')],
              [(''Dataset Type'', Str ''B''), (''Group Name'', Str ''CODCC''), (''Status'', Str ''New'')],
              [(''Dataset Type'', Str ''A''), (''Group Name'', Str ''TMC''), (''Status'', Str ''QA'')]]\<rparr>
     = Inr \<lparr>pcolumns = [''CODCC'', ''TMC''],
      prows = [(''A'', [(''CODCC'', 0), (''TMC'', 1)]), (''B'', [(''CODCC'', 1), (''TMC'', 1)])]\<rparr> \<and>
   sorted [''A'', ''B'']"
proof -
  let ?df = "\<lparr>columns = [''Dataset Type'', ''Group Name'', ''Status''],
      rows = [[(''Dataset Type'', Str ''B''), (''Group Name'', Str ''TMC''), (''Status'', Str ''New'')],
              [(''Dataset Type'', Str ''B''), (''Group Name'', Str ''CODCC''), (''Status'', Str ''New'')],
              [(''Dataset Type'', Str ''A''), (''Group Name'', Str ''TMC''), (''Status'', Str ''QA'')]]\<rparr>"
  let ?p = "\<lparr>pcolumns = [''New'', ''QA''],
      prows = [(''B'', [(''New'', 2), (''QA'', 0)]), (''A'', [(''New'', 0), (''QA'', 1)])]\<rparr>"
  let ?q = "\<lparr>pcolumns = [''CODCC'', ''TMC''],
      prows = [(''A'', [(''CODCC'', 0), (''TMC'', 1)]), (''B'', [(''CODCC'', 1), (''TMC'', 1)])]\<rparr>"
  have a: "aggregation stable_argsort Type_by_Status ?df = Inr ?p" by code_simp
  have b: "aggregation stable_argsort Type_by_Group ?df = Inr ?q" by code_simp
  have n: "\<forall>r\<in>set (rows ?df). field r (col_key Type_by_Status) \<noteq> Str ''Total''"
    by (simp add: field_def)
  from aggregation_order [OF descending_stable_argsort a] n
  have 1: "sorted (pcolumns ?p)"
    and 2: "\<forall>r\<in>set (prows ?p). row_total r = int (row_count ?df ''Dataset Type'' ''Status'' (fst r))"
    and 3: "sorted_wrt (\<lambda>r s. row_total s \<le> row_total r) (prows ?p)"
    by simp_all
  from aggregation_order [OF descending_stable_argsort b] have 4: "sorted (map fst (prows ?q))"
    by simp
  from 2 have 5: "row_total (''B'', [(''New'', 2), (''QA'', 0)]) =
      int (row_count ?df ''Dataset Type'' ''Status'' ''B'')" by simp
  from 1 have 6: "sorted [''New'', ''QA'']" by simp
  from 4 have 7: "sorted [''A'', ''B'']" by simp
  from 3 have 8: "sorted_wrt (\<lambda>r s. row_total s \<le> row_total r)
     [(''B'', [(''New'', 2), (''QA'', 0)]), (''A'', [(''New'', 0), (''QA'', 1)])]" by simp
  from a b 5 6 7 8 show ?thesis by blast
qed

subsection \<open>Cells\<close>




subsection \<open>Order of the input\<close>

text \<open>
  C6. An aggregation of a frame whose rows are a permutation of the rows of another
  frame is the same matrix, cell for cell and row for row (or the same exception): the
  result depends on the multiset of the rows only. The order of rows of equal total does
  not depend on the order of the input either, whatever the sort of \<open>sort_values\<close> is.
\<close>

theorem aggregation_permutation:
  assumes "mset (rows df') = mset (rows df)" and "columns df' = columns df"
  shows "aggregation argsort v df' = aggregation argsort v df"
  using assms by (rule aggregation_permuted)

theorem aggregation_permutation_witness:
  "\<forall>argsort. aggregation argsort Group_by_Type
     \<lparr>columns = [''Dataset Type'', ''Group Name'', ''Status''],
      rows = [[(''Dataset Type'', Str ''A''), (''Group Name'', Str ''TMC''), (''Status'', Str ''QA'')],
              [(''Dataset Type'', Str ''B''), (''Group Name'', Str ''TMC''), (''Status'', Str ''New'')],
              [(''Dataset Type'', Str ''B''), (''Group Name'', Str ''CODCC''), (''Status'', Str ''New'')]]\<rparr>
   = aggregation argsort Group_by_Type
     \<lparr>columns = [''Dataset Type'', ''Group Name'', ''Status''],
      rows = [[(''Dataset Type'', Str ''B''), (''Group Name'', Str ''TMC''), (''Status'', Str ''New'')],
              [(''Dataset Type'', Str ''B''), (''Group Name'', Str ''CODCC''), (''Status'', Str ''New'')],
              [(''Dataset Type'', Str ''A''), (''Group Name'', Str ''TMC''), (''Status'', Str ''QA'')]]\<rparr>"
  by (rule allI, rule aggregation_permutation) simp_all

subsection \<open>The views and the shared frame\<close>

text \<open>
  C8, as stated, fails in its first half: every view starts with
  \<open>df.rename(..., inplace=True)\<close>, which changes the frame that all views share. After
  the first view the columns \<open>dataset_type\<close> and \<open>group_name\<close> of the frame are gone
  and \<open>Dataset Type\<close> and \<open>Group Name\<close> stand in their place.
\<close>

theorem views_rename_shared_frame:
  "(\<forall>argsort. \<exists>agg_df. view_group_type argsort
     \<lparr>columns = [''dataset_type'', ''group_name'', ''status'', ''dataset_status''],
      rows = [[(''dataset_type'', Str ''RNAseq''), (''group_name'', Str ''TMC''), (''status'', Str ''Published''), (''dataset_status'', Str ''Primary'')],
              [(''dataset_type'', Str ''RNAseq''), (''group_name'', Str ''CODCC''), (''status'', Str ''New''), (''dataset_status'', Str ''Primary'')]]\<rparr>
   = Inr (\<lparr>columns = [''Dataset Type'', ''Group Name'', ''status'', ''dataset_status''],
      rows = [[(''Dataset Type'', Str ''RNAseq''), (''Group Name'', Str ''TMC''), (''status'', Str ''Published''), (''dataset_status'', Str ''Primary'')],
              [(''Dataset Type'', Str ''RNAseq''), (''Group Name'', Str ''CODCC''), (''status'', Str ''New''), (''dataset_status'', Str ''Primary'')]]\<rparr>, agg_df)) \<and>
   \<lparr>columns = [''Dataset Type'', ''Group Name'', ''status'', ''dataset_status''],
      rows = [[(''Dataset Type'', Str ''RNAseq''), (''Group Name'', Str ''TMC''), (''status'', Str ''Published''), (''dataset_status'', Str ''Primary'')],
              [(''Dataset Type'', Str ''RNAseq''), (''Group Name'', Str ''CODCC''), (''status'', Str ''New''), (''dataset_status'', Str ''Primary'')]]\<rparr>
   \<noteq> \<lparr>columns = [''dataset_type'', ''group_name'', ''status'', ''dataset_status''],
      rows = [[(''dataset_type'', Str ''RNAseq''), (''group_name'', Str ''TMC''), (''status'', Str ''Published''), (''dataset_status'', Str ''Primary'')],
              [(''dataset_type'', Str ''RNAseq''), (''group_name'', Str ''CODCC''), (''status'', Str ''New''), (''dataset_status'', Str ''Primary'')]]\<rparr>"
proof -
  let ?df0 = "\<lparr>columns = [''dataset_type'', ''group_name'', ''status'', ''dataset_status''],
      rows = [[(''dataset_type'', Str ''RNAseq''), (''group_name'', Str ''TMC''), (''status'', Str ''Published''), (''dataset_status'', Str ''Primary'')],
              [(''dataset_type'', Str ''RNAseq''), (''group_name'', Str ''CODCC''), (''status'', Str ''New''), (''dataset_status'', Str ''Primary'')]]\<rparr>"
  let ?df1 = "\<lparr>columns = [''Dataset Type'', ''Group Name'', ''status'', ''dataset_status''],
      rows = [[(''Dataset Type'', Str ''RNAseq''), (''Group Name'', Str ''TMC''), (''status'', Str ''Published''), (''dataset_status'', Str ''Primary'')],
              [(''Dataset Type'', Str ''RNAseq''), (''Group Name'', Str ''CODCC''), (''status'', Str ''New''), (''dataset_status'', Str ''Primary'')]]\<rparr>"
  have r: "rename type_group_names ?df0 = ?df1" by code_simp
  have g: "groupable ?df1 (row_key Group_by_Type) (col_key Group_by_Type)" by code_simp
  have "\<exists>agg_df. view_group_type argsort ?df0 = Inr (?df1, agg_df)" for argsort
  proof -
    from g obtain agg_df where "aggregation argsort Group_by_Type ?df1 = Inr agg_df"
      using aggregation_succeeds [of argsort Group_by_Type ?df1] by blast
    then have "block argsort Group_by_Type ?df0 = Inr (?df1, agg_df)"
      unfolding block_rename by (simp only: r if_False view.distinct sum.case)
    then show ?thesis by auto
  qed
  moreover have "?df1 \<noteq> ?df0" by simp
  ultimately show ?thesis by blast
qed

text \<open>
  C8, amended. The views do change the shared frame, each by renaming columns in place,
  but what a view computes (its matrix, or its exception) after any run of views that
  ended without exception is what it computes alone on the original frame.
\<close>

theorem views_independent:
  assumes "run_blocks argsort vs df0 = Inr df"
  shows "block_result argsort v df = block_result argsort v df0"
proof -
  from assms have "df = df0 \<or> df = rename type_group_names df0 \<or> df = rename type_group_status_names df0"
    by (rule run_blocks_frame)
  then show ?thesis
    by (cases "v = Type_by_Status")
      (auto simp: block_result_rename rename_twice aggregation_rename_m3)
qed

theorem views_independent_witness:
  "run_blocks stable_argsort [Type_by_Status, Group_by_Type]
     \<lparr>columns = [''dataset_type'', ''group_name'', ''status'', ''dataset_status''],
      rows = [[(''dataset_type'', Str ''RNAseq''), (''group_name'', Str ''TMC''), (''status'', Str ''Published''), (''dataset_status'', Str ''Primary'')],
              [(''dataset_type'', Str ''RNAseq''), (''group_name'', Str ''CODCC''), (''status'', Str ''New''), (''dataset_status'', Str ''Primary'')]]\<rparr>
   = Inr \<lparr>columns = [''Dataset Type'', ''Group Name'', ''Status'', ''dataset_status''],
      rows = [[(''Dataset Type'', Str ''RNAseq''), (''Group Name'', Str ''TMC''), (''Status'', Str ''Published''), (''dataset_status'', Str ''Primary'')],
              [(''Dataset Type'', Str ''RNAseq''), (''Group Name'', Str ''CODCC''), (''Status'', Str ''New''), (''dataset_status'', Str ''Primary'')]]\<rparr> \<and>
   block_result stable_argsort Type_by_Group
     \<lparr>columns = [''Dataset Type'', ''Group Name'', ''Status'', ''dataset_status''],
      rows = [[(''Dataset Type'', Str ''RNAseq''), (''Group Name'', Str ''TMC''), (''Status'', Str ''Published''), (''dataset_status'', Str ''Primary'')],
              [(''Dataset Type'', Str ''RNAseq''), (''Group Name'', Str ''CODCC''), (''Status'', Str ''New''), (''dataset_status'', Str ''Primary'')]]\<rparr>
   = block_result stable_argsort Type_by_Group
     \<lparr>columns = [''dataset_type'', ''group_name'', ''status'', ''dataset_status''],
      rows = [[(''dataset_type'', Str ''RNAseq''), (''group_name'', Str ''TMC''), (''status'', Str ''Published''), (''dataset_status'', Str ''Primary'')],
              [(''dataset_type'', Str ''RNAseq''), (''group_name'', Str ''CODCC''), (''status'', Str ''New''), (''dataset_status'', Str ''Primary'')]]\<rparr>"
proof -
  have a: "run_blocks stable_argsort [Type_by_Status, Group_by_Type]
     \<lparr>columns = [''dataset_type'', ''group_name'', ''status'', ''dataset_status''],
      rows = [[(''dataset_type'', Str ''RNAseq''), (''group_name'', Str ''TMC''), (''status'', Str ''Published''), (''dataset_status'', Str ''Primary'')],
              [(''dataset_type'', Str ''RNAseq''), (''group_name'', Str ''CODCC''), (''status'', Str ''New''), (''dataset_status'', Str ''Primary'')]]\<rparr>
   = Inr \<lparr>columns = [''Dataset Type'', ''Group Name'', ''Status'', ''dataset_status''],
      rows = [[(''Dataset Type'', Str ''RNAseq''), (''Group Name'', Str ''TMC''), (''Status'', Str ''Published''), (''dataset_status'', Str ''Primary'')],
              [(''Dataset Type'', Str ''RNAseq''), (''Group Name'', Str ''CODCC''), (''Status'', Str ''New''), (''dataset_status'', Str ''Primary'')]]\<rparr>"
    by code_simp
  from a views_independent [OF a, where v = Type_by_Group] show ?thesis by (rule conjI)
qed

subsection \<open>Primary records and the sum of a matrix\<close>




end
